theory Spec2Isabelle
  imports Main
begin

section \<open>The error-report ingestor (ingestor/server.go)\<close>

text \<open>
  The ingestor is one HTTP route, \<^verbatim>\<open>POST /\<close>, registered in \<^verbatim>\<open>main\<close>. Its handler
  checks the Content-Type header, reads the body, decodes it into an \<^verbatim>\<open>ErrorReport\<close>,
  checks the three required fields, builds one InfluxDB point and writes it with the
  blocking write API. The handler is embedded below as the function \<open>handler\<close>; the
  things it calls but does not define (the HTTP header table, \<^verbatim>\<open>io.ReadAll\<close>,
  \<^verbatim>\<open>json.Unmarshal\<close>, \<^verbatim>\<open>write.NewPoint\<close>, \<^verbatim>\<open>WritePoint\<close>, \<^verbatim>\<open>time.Now\<close>, the loggers)
  are modelled at their interface. The middleware gives every request three loggers
  whose prefix carries a fresh request id; a logged line is kept here with the logger
  it went to, without the prefix.
\<close>

subsection \<open>Data\<close>

text \<open>
  \<^verbatim>\<open>type ErrorReport struct\<close>: four Go strings. A Go string is never nil; the zero value
  of the struct has four empty strings.
\<close>

record ErrorReport =
  Service :: string
  Endpoint :: string
  Error :: string
  Traceback :: string

definition zero_ErrorReport :: ErrorReport where
  "zero_ErrorReport = \<lparr>Service = [], Endpoint = [], Error = [], Traceback = []\<rparr>"

text \<open>
  A JSON document, as \<^verbatim>\<open>encoding/json\<close> sees it once the text has passed the syntax
  check: the members of an object in the order of the text, duplicates kept, keys and
  string values already unquoted. Numbers keep their literal text.
\<close>

datatype json =
    JNull
  | JBool bool
  | JNumber string
  | JString string
  | JArray "json list"
  | JObject "(string \<times> json) list"

text \<open>
  The bytes of a request body are either not a JSON text (with the syntax error that
  \<^verbatim>\<open>json.Unmarshal\<close> reports for them) or the text of one JSON document, of any
  nesting depth.
\<close>

datatype payload = Malformed string | Document json

text \<open>
  The request as the handler reads it: the header table (\<^verbatim>\<open>http.Header\<close>, canonical
  key to list of values) and what \<^verbatim>\<open>io.ReadAll\<close> gives on the body, an I/O error
  or the bytes.
\<close>

record request =
  Header :: "string \<rightharpoonup> string list"
  Body :: "string + payload"

text \<open>
  \<^verbatim>\<open>write.NewPoint(measurement, tags, fields, ts)\<close>: the point keeps the four
  arguments (tags and fields are its tag set and field set). Every field value the
  handler stores is a string.
\<close>

type_synonym time = int

record point =
  measurement :: string
  tag_set :: "string \<rightharpoonup> string"
  field_set :: "string \<rightharpoonup> string"
  timestamp :: time

definition NewPoint :: "string \<Rightarrow> (string \<rightharpoonup> string) \<Rightarrow> (string \<rightharpoonup> string) \<Rightarrow> time \<Rightarrow> point" where
  "NewPoint m tgs flds ts = \<lparr>measurement = m, tag_set = tgs, field_set = flds, timestamp = ts\<rparr>"

text \<open>
  The two contexts a write could be given: \<^verbatim>\<open>context.Background()\<close>, which is never
  cancelled, and the context of the request (\<^verbatim>\<open>c.Request().Context()\<close>), which
  net/http cancels when the client's connection goes away.
\<close>

datatype ctx = Background | RequestContext

text \<open>
  What the handler's surroundings decide: the wall clock read by \<^verbatim>\<open>time.Now()\<close>,
  the answer of the InfluxDB server to a written point (\<open>None\<close> for success, otherwise
  the text of the error), and whether the caller has disconnected before the write
  completes.
\<close>

record env =
  now :: time
  store :: "point \<Rightarrow> string option"
  client_gone :: bool

definition ctx_done :: "env \<Rightarrow> ctx \<Rightarrow> bool" where
  "ctx_done e c = (case c of Background \<Rightarrow> False | RequestContext \<Rightarrow> client_gone e)"

text \<open>
  \<^verbatim>\<open>writeAPI.WritePoint(ctx, point)\<close> of the blocking write API: a write whose
  context is done is abandoned with the context's error; otherwise the store answers.
\<close>

definition WritePoint :: "env \<Rightarrow> ctx \<Rightarrow> point \<Rightarrow> string option" where
  "WritePoint e c p = (if ctx_done e c then Some ''context canceled'' else store e p)"

subsection \<open>Header lookup\<close>

text \<open>
  \<^verbatim>\<open>Header.Get(key)\<close>: the first value stored under the key, the empty string when
  there is none. The key \<^verbatim>\<open>Content-Type\<close> is already in canonical form.
\<close>

definition Header_Get :: "(string \<rightharpoonup> string list) \<Rightarrow> string \<Rightarrow> string" where
  "Header_Get h key = (case h key of None \<Rightarrow> [] | Some [] \<Rightarrow> [] | Some (v # _) \<Rightarrow> v)"

subsection \<open>Decoding the body into an ErrorReport\<close>

text \<open>
  The struct's fields with their JSON names, from the struct tags, in declaration order.
  \<^verbatim>\<open>omitempty\<close> on \<^verbatim>\<open>traceback\<close> only concerns encoding.
\<close>

datatype field = FService | FEndpoint | FError | FTraceback

fun json_name :: "field \<Rightarrow> string" where
  "json_name FService = ''service''"
| "json_name FEndpoint = ''endpoint''"
| "json_name FError = ''error''"
| "json_name FTraceback = ''traceback''"

definition struct_fields :: "field list" where
  "struct_fields = [FService, FEndpoint, FError, FTraceback]"

fun set_field :: "field \<Rightarrow> string \<Rightarrow> ErrorReport \<Rightarrow> ErrorReport" where
  "set_field FService v r = r\<lparr>Service := v\<rparr>"
| "set_field FEndpoint v r = r\<lparr>Endpoint := v\<rparr>"
| "set_field FError v r = r\<lparr>Error := v\<rparr>"
| "set_field FTraceback v r = r\<lparr>Traceback := v\<rparr>"

text \<open>
  \<^verbatim>\<open>encoding/json\<close> matches an object key to a field by its exact name first and by
  its case-folded name otherwise. Folding maps ASCII letters to upper case and the two
  non-ASCII letters that fold to ASCII, the long s (UTF-8 bytes C5 BF) and the Kelvin
  sign (E2 84 AA), to \<open>S\<close> and \<open>K\<close>.
\<close>

definition upper_byte :: "char \<Rightarrow> char" where
  "upper_byte c =
     (case map_of (zip ''abcdefghijklmnopqrstuvwxyz'' ''ABCDEFGHIJKLMNOPQRSTUVWXYZ'') c of
        Some u \<Rightarrow> u
      | None \<Rightarrow> c)"

fun foldName :: "string \<Rightarrow> string" where
  "foldName [] = []"
| "foldName (a # cs) =
     (if a = CHR 0xC5 \<and> take 1 cs = [CHR 0xBF]
        then CHR ''S'' # foldName (drop 1 cs)
      else if a = CHR 0xE2 \<and> take 2 cs = [CHR 0x84, CHR 0xAA]
        then CHR ''K'' # foldName (drop 2 cs)
      else upper_byte a # foldName cs)"

definition find_field :: "string \<Rightarrow> field option" where
  "find_field key =
     (case find (\<lambda>f. json_name f = key) struct_fields of
        Some f \<Rightarrow> Some f
      | None \<Rightarrow> find (\<lambda>f. foldName (json_name f) = foldName key) struct_fields)"

text \<open>
  The error \<^verbatim>\<open>json.Unmarshal\<close> returns: a syntax error of the text, or the first
  type mismatch met while decoding (\<^verbatim>\<open>UnmarshalTypeError\<close> with the kind of the JSON
  value and the JSON name of the field; the empty name for the document itself).
\<close>

datatype unmarshal_error = SyntaxError string | UnmarshalTypeError string string

fun value_kind :: "json \<Rightarrow> string" where
  "value_kind JNull = ''null''"
| "value_kind (JBool _) = ''bool''"
| "value_kind (JNumber _) = ''number''"
| "value_kind (JString _) = ''string''"
| "value_kind (JArray _) = ''array''"
| "value_kind (JObject _) = ''object''"

text \<open>
  The decoder's state: the report being filled and the first error saved so far.
  Decoding goes on after a type mismatch; only the first one is kept.
\<close>

type_synonym decodeState = "ErrorReport \<times> unmarshal_error option"

definition saveError :: "unmarshal_error \<Rightarrow> decodeState \<Rightarrow> decodeState" where
  "saveError err d = (case snd d of None \<Rightarrow> (fst d, Some err) | Some _ \<Rightarrow> d)"

text \<open>
  Storing one JSON value into a string field: a JSON string is assigned, \<^verbatim>\<open>null\<close>
  leaves the field as it is, every other kind of value is a type mismatch.
\<close>

fun store_value :: "field \<Rightarrow> json \<Rightarrow> decodeState \<Rightarrow> decodeState" where
  "store_value f (JString s) d = (set_field f s (fst d), snd d)"
| "store_value f JNull d = d"
| "store_value f v d = saveError (UnmarshalTypeError (value_kind v) (json_name f)) d"

text \<open>
  Decoding an object into the struct: the members one after the other; a key that
  matches no field is skipped together with its value.
\<close>

fun object :: "(string \<times> json) list \<Rightarrow> decodeState \<Rightarrow> decodeState" where
  "object [] d = d"
| "object ((key, v) # kvs) d =
     (case find_field key of
        None \<Rightarrow> object kvs d
      | Some f \<Rightarrow> object kvs (store_value f v d))"

text \<open>
  Decoding the document into the struct: an object fills it, \<^verbatim>\<open>null\<close> leaves it
  untouched, every other kind of value is a type mismatch.
\<close>

fun decode_value :: "json \<Rightarrow> decodeState \<Rightarrow> decodeState" where
  "decode_value (JObject kvs) d = object kvs d"
| "decode_value JNull d = d"
| "decode_value v d = saveError (UnmarshalTypeError (value_kind v) []) d"

text \<open>
  The syntax check of \<^verbatim>\<open>encoding/json\<close> refuses a text whose arrays and objects
  nest deeper than \<^verbatim>\<open>maxNestingDepth\<close>, with the syntax error
  \<^verbatim>\<open>exceeded max depth\<close>. The check runs over the whole text before anything is
  decoded, so it also counts the values under keys that decoding would skip. Every
  array and every object, the empty ones too, is one level.
\<close>

definition maxNestingDepth :: nat where
  "maxNestingDepth = 10000"

fun depth :: "json \<Rightarrow> nat" where
  "depth (JArray vs) = Suc (foldr max (map depth vs) 0)"
| "depth (JObject kvs) = Suc (foldr max (map (\<lambda>kv. depth (snd kv)) kvs) 0)"
| "depth v = 0"

text \<open>
  Modelled from the spec: \<^verbatim>\<open>json.Unmarshal\<close> is the decoder of Go's standard library
  (\<^verbatim>\<open>encoding/json\<close>) and not among the repository's sources; the specification
  asks for a body that is valid JSON decodable into \<^verbatim>\<open>ErrorReport\<close> and says no
  more. The decoder is therefore written from the library's behaviour on this struct:
  the syntax check first (a text that is not JSON, or nests too deep), then the
  decoding of the document into the freshly declared (zero) \<^verbatim>\<open>report\<close>, as in
  \<^verbatim>\<open>json.Unmarshal(body, &report)\<close>, returning the first type mismatch if there
  was one.
\<close>

definition Unmarshal :: "payload \<Rightarrow> unmarshal_error + ErrorReport" where
  "Unmarshal data =
     (case data of
        Malformed msg \<Rightarrow> Inl (SyntaxError msg)
      | Document j \<Rightarrow>
          if depth j > maxNestingDepth then Inl (SyntaxError ''exceeded max depth'')
          else
            (case decode_value j (zero_ErrorReport, None) of
               (r, None) \<Rightarrow> Inr r
             | (r, Some err) \<Rightarrow> Inl err))"

subsection \<open>The handler\<close>

text \<open>
  What one call of the handler does: the response (\<^verbatim>\<open>c.JSON(status, message)\<close>), the
  lines given to the request's loggers (logger, format string, arguments, not yet
  rendered) and the calls of \<^verbatim>\<open>WritePoint\<close> it made, each with its context and point.
\<close>

datatype logger = Info | Warn | Err

datatype arg = ArgString string | ArgReadError string | ArgUnmarshalError unmarshal_error
  | ArgWriteError string

record outcome =
  status :: nat
  message :: string
  logged :: "(logger \<times> string \<times> arg list) list"
  writes :: "(ctx \<times> point) list"

abbreviation StatusOK :: nat where "StatusOK \<equiv> 200"
abbreviation StatusBadRequest :: nat where "StatusBadRequest \<equiv> 400"
abbreviation StatusUnsupportedMediaType :: nat where "StatusUnsupportedMediaType \<equiv> 415"
abbreviation StatusInternalServerError :: nat where "StatusInternalServerError \<equiv> 500"

text \<open>
  The \<^verbatim>\<open>fields\<close> map of the handler: the error always, the traceback only when it is
  not the empty string.
\<close>

definition report_fields :: "ErrorReport \<Rightarrow> (string \<rightharpoonup> string)" where
  "report_fields report =
     (let fields = [''error'' \<mapsto> Error report]
      in if Traceback report \<noteq> [] then fields(''traceback'' \<mapsto> Traceback report) else fields)"

definition report_point :: "env \<Rightarrow> ErrorReport \<Rightarrow> point" where
  "report_point e report =
     NewPoint ''error_logs''
       [''service'' \<mapsto> Service report, ''endpoint'' \<mapsto> Endpoint report]
       (report_fields report)
       (now e)"

definition handler :: "env \<Rightarrow> request \<Rightarrow> outcome" where
  "handler e req =
     (let ct = Header_Get (Header req) ''Content-Type'' in
      if ct \<noteq> ''application/json'' then
        \<lparr>status = StatusUnsupportedMediaType,
         message = ''Content-Type must be application/json'',
         logged = [(Err, ''Invalid Content-Type. Expected application/json, got %s'', [ArgString ct])],
         writes = []\<rparr>
      else
        let l1 = [(Info, ''Attempting ingestion to DB\<newline>'', [])] in
        case Body req of
          Inl err \<Rightarrow>
            \<lparr>status = StatusBadRequest,
             message = ''Error reading request body'',
             logged = l1 @ [(Err, ''Error reading request body: %v'', [ArgReadError err])],
             writes = []\<rparr>
        | Inr body \<Rightarrow>
            (case Unmarshal body of
               Inl err \<Rightarrow>
                 \<lparr>status = StatusBadRequest,
                  message = ''Error unmarshalling JSON'',
                  logged = l1 @ [(Err, ''Error unmarshalling JSON: %v'', [ArgUnmarshalError err])],
                  writes = []\<rparr>
             | Inr report \<Rightarrow>
                 if Service report = [] \<or> Endpoint report = [] \<or> Error report = [] then
                   \<lparr>status = StatusBadRequest,
                    message = ''Missing required fields in the JSON payload'',
                    logged = l1 @ [(Err, ''Missing required fields in the JSON payload'', [])],
                    writes = []\<rparr>
                 else
                   let point = report_point e report in
                   (case WritePoint e Background point of
                      Some err \<Rightarrow>
                        \<lparr>status = StatusInternalServerError,
                         message = ''Error writing point to InfluxDB'',
                         logged = l1 @ [(Err, ''Error writing point to InfluxDB: %v'', [ArgWriteError err])],
                         writes = [(Background, point)]\<rparr>
                    | None \<Rightarrow>
                        \<lparr>status = StatusOK,
                         message = ''Error logged'',
                         logged = l1,
                         writes = [(Background, point)]\<rparr>)))"

subsection \<open>The specification's vocabulary\<close>

text \<open>
  A request passes all validation, with \<open>report\<close> the decoded body: the Content-Type
  header is the JSON media type, the body was read, it decoded without error, and the
  three required fields are not empty.
\<close>

definition valid_request :: "request \<Rightarrow> ErrorReport \<Rightarrow> bool" where
  "valid_request req report =
     (Header_Get (Header req) ''Content-Type'' = ''application/json'' \<and>
      (case Body req of Inl _ \<Rightarrow> False | Inr data \<Rightarrow> Unmarshal data = Inr report) \<and>
      Service report \<noteq> [] \<and> Endpoint report \<noteq> [] \<and> Error report \<noteq> [])"

text \<open>
  The validation sequence as the specification lists it: four steps in a fixed order,
  each with the condition under which it fails and the status it answers with. A step
  that needs the result of an earlier one (decoding needs the bytes, the field check
  needs the decoded report) does not fail when that result does not exist. The
  handler's messages are added per step, since three steps share the status 400.
\<close>

datatype step = ContentTypeCheck | BodyRead | JSONDecode | RequiredFieldCheck

definition validation_sequence :: "step list" where
  "validation_sequence = [ContentTypeCheck, BodyRead, JSONDecode, RequiredFieldCheck]"

fun step_fails :: "request \<Rightarrow> step \<Rightarrow> bool" where
  "step_fails req ContentTypeCheck =
     (Header_Get (Header req) ''Content-Type'' \<noteq> ''application/json'')"
| "step_fails req BodyRead = (case Body req of Inl _ \<Rightarrow> True | Inr _ \<Rightarrow> False)"
| "step_fails req JSONDecode =
     (case Body req of
        Inl _ \<Rightarrow> False
      | Inr data \<Rightarrow> (case Unmarshal data of Inl _ \<Rightarrow> True | Inr _ \<Rightarrow> False))"
| "step_fails req RequiredFieldCheck =
     (case Body req of
        Inl _ \<Rightarrow> False
      | Inr data \<Rightarrow>
          (case Unmarshal data of
             Inl _ \<Rightarrow> False
           | Inr report \<Rightarrow> Service report = [] \<or> Endpoint report = [] \<or> Error report = []))"

definition first_failure :: "request \<Rightarrow> step option" where
  "first_failure req = find (step_fails req) validation_sequence"

fun step_status :: "step \<Rightarrow> nat" where
  "step_status ContentTypeCheck = StatusUnsupportedMediaType"
| "step_status BodyRead = StatusBadRequest"
| "step_status JSONDecode = StatusBadRequest"
| "step_status RequiredFieldCheck = StatusBadRequest"

fun step_message :: "step \<Rightarrow> string" where
  "step_message ContentTypeCheck = ''Content-Type must be application/json''"
| "step_message BodyRead = ''Error reading request body''"
| "step_message JSONDecode = ''Error unmarshalling JSON''"
| "step_message RequiredFieldCheck = ''Missing required fields in the JSON payload''"

text \<open>Reading a field of the report, and an object in which no key matches a field.\<close>

fun get_field :: "field \<Rightarrow> ErrorReport \<Rightarrow> string" where
  "get_field FService r = Service r"
| "get_field FEndpoint r = Endpoint r"
| "get_field FError r = Error r"
| "get_field FTraceback r = Traceback r"

definition absent :: "field \<Rightarrow> (string \<times> json) list \<Rightarrow> bool" where
  "absent f kvs = list_all (\<lambda>(key, v). find_field key \<noteq> Some f) kvs"

text \<open>A key the struct does not know, and an object stripped of such keys.\<close>

definition unknown_key :: "string \<Rightarrow> bool" where
  "unknown_key key = (find_field key = None)"

definition known_members :: "(string \<times> json) list \<Rightarrow> (string \<times> json) list" where
  "known_members kvs = filter (\<lambda>(key, v). \<not> unknown_key key) kvs"

text \<open>A non-empty string of blanks: space, tab, line feed, carriage return.\<close>

definition whitespace_only :: "string \<Rightarrow> bool" where
  "whitespace_only s =
     (s \<noteq> [] \<and> list_all (\<lambda>c. c \<in> set [CHR '' '', CHR 0x09, CHR 0x0A, CHR 0x0D]) s)"

text \<open>A Content-Type value that differs from the JSON media type in letter case only.\<close>

definition case_variant :: "string \<Rightarrow> bool" where
  "case_variant ct =
     (ct \<noteq> ''application/json'' \<and> map upper_byte ct = map upper_byte ''application/json'')"

subsection \<open>Concrete requests and surroundings\<close>

text \<open>
  A request with one Content-Type value and a readable body holding the JSON document
  \<open>j\<close>; the scenario bodies of the specification; a store that accepts every point, one
  that rejects every point, and one that accepts while the caller has already gone.
\<close>

definition json_request :: "string \<Rightarrow> json \<Rightarrow> request" where
  "json_request ct j = \<lparr>Header = [''Content-Type'' \<mapsto> [ct]], Body = Inr (Document j)\<rparr>"

definition api_timeout :: json where
  "api_timeout =
     JObject [(''service'', JString ''api''), (''endpoint'', JString ''/v1/x''),
              (''error'', JString ''timeout'')]"

definition api_timeout_report :: ErrorReport where
  "api_timeout_report =
     \<lparr>Service = ''api'', Endpoint = ''/v1/x'', Error = ''timeout'', Traceback = []\<rparr>"

definition api_timeout_traced :: json where
  "api_timeout_traced =
     JObject [(''service'', JString ''api''), (''endpoint'', JString ''/v1/x''),
              (''error'', JString ''timeout''), (''traceback'', JString ''main.go:12'')]"

definition api_timeout_traced_report :: ErrorReport where
  "api_timeout_traced_report =
     \<lparr>Service = ''api'', Endpoint = ''/v1/x'', Error = ''timeout'', Traceback = ''main.go:12''\<rparr>"

definition empty_service :: json where
  "empty_service =
     JObject [(''service'', JString []), (''endpoint'', JString ''/v1/x''),
              (''error'', JString ''timeout'')]"

definition blank_fields :: json where
  "blank_fields =
     JObject [(''service'', JString '' ''), (''endpoint'', JString [CHR 0x09]),
              (''error'', JString [CHR '' '', CHR 0x0A])]"

definition blank_fields_report :: ErrorReport where
  "blank_fields_report =
     \<lparr>Service = '' '', Endpoint = [CHR 0x09], Error = [CHR '' '', CHR 0x0A], Traceback = []\<rparr>"

text \<open>\<open>nest n j\<close> wraps \<open>j\<close> in \<open>n\<close> arrays of one element.\<close>

fun nest :: "nat \<Rightarrow> json \<Rightarrow> json" where
  "nest 0 j = j"
| "nest (Suc n) j = JArray [nest n j]"

definition api_timeout_deep_extra :: json where
  "api_timeout_deep_extra =
     JObject [(''service'', JString ''api''), (''endpoint'', JString ''/v1/x''),
              (''error'', JString ''timeout''), (''x'', nest 16384 JNull)]"

definition only_deep_extra :: json where
  "only_deep_extra = JObject [(''x'', nest 16384 JNull)]"

definition only_extra_keys :: json where
  "only_extra_keys = JObject [(''host'', JString ''web-1''), (''code'', JNumber ''503'')]"

definition unreadable_request :: request where
  "unreadable_request =
     \<lparr>Header = [''Content-Type'' \<mapsto> [''application/json'']], Body = Inl ''unexpected EOF''\<rparr>"

definition no_content_type :: request where
  "no_content_type = \<lparr>Header = Map.empty, Body = Inr (Malformed ''unexpected end of JSON input'')\<rparr>"

definition store_up :: env where
  "store_up = \<lparr>now = 1700000000, store = (\<lambda>_. None), client_gone = False\<rparr>"

definition store_down :: env where
  "store_down =
     \<lparr>now = 1700000000, store = (\<lambda>_. Some ''unauthorized access''), client_gone = False\<rparr>"

definition caller_gone :: env where
  "caller_gone = \<lparr>now = 1700000000, store = (\<lambda>_. None), client_gone = True\<rparr>"

section \<open>Properties of the handler\<close>

subsection \<open>Lemmas about decoding\<close>

text \<open>
  The table of \<open>upper_byte\<close> is the byte arithmetic of the library: a byte between
  \<^verbatim>\<open>'a'\<close> and \<^verbatim>\<open>'z'\<close> is decreased by \<^verbatim>\<open>'a' - 'A'\<close>, every other byte is kept.
\<close>

lemma upper_byte_arith:
  "upper_byte c =
     (if (97::nat) \<le> of_char c \<and> of_char c \<le> (122::nat)
      then char_of (of_char c - (32::nat)) else c)"
proof (cases c)
  case (Char b0 b1 b2 b3 b4 b5 b6 b7)
  show ?thesis unfolding Char
    by (cases b0; cases b1; cases b2; cases b3; cases b4; cases b5; cases b6; cases b7)
       (simp_all add: upper_byte_def char_of_def bit_Suc_0_iff)
qed

lemma get_set_field_other: "f' \<noteq> f \<Longrightarrow> get_field f (set_field f' v r) = get_field f r"
  by (cases f; cases f'; simp)

lemma store_value_other:
  "f' \<noteq> f \<Longrightarrow> get_field f (fst (store_value f' v d)) = get_field f (fst d)"
  by (cases v) (simp_all add: saveError_def get_set_field_other split: option.splits)

lemma object_absent: "absent f kvs \<Longrightarrow> get_field f (fst (object kvs d)) = get_field f (fst d)"
proof (induction kvs arbitrary: d)
  case Nil
  then show ?case by simp
next
  case (Cons kv kvs)
  obtain key v where kv: "kv = (key, v)" by (cases kv)
  from Cons.prems have rest: "absent f kvs" and here: "find_field key \<noteq> Some f"
    by (simp_all add: absent_def kv)
  show ?case
  proof (cases "find_field key")
    case None
    then show ?thesis using Cons.IH [OF rest] by (simp add: kv)
  next
    case (Some f')
    with here have "f' \<noteq> f" by simp
    then show ?thesis using Cons.IH [OF rest, of "store_value f' v d"] Some
      by (simp add: kv store_value_other)
  qed
qed

lemma Unmarshal_absent:
  assumes "absent f kvs" and "Unmarshal (Document (JObject kvs)) = Inr r"
  shows "get_field f r = []"
proof -
  from assms(2) have "r = fst (object kvs (zero_ErrorReport, None))"
    by (auto simp: Unmarshal_def split: if_splits prod.splits option.splits)
  then show ?thesis
    using object_absent [OF assms(1), of "(zero_ErrorReport, None)"]
    by (cases f) (simp_all add: zero_ErrorReport_def)
qed

lemma object_known_members: "object (known_members kvs) d = object kvs d"
  by (induction kvs d rule: object.induct)
     (simp_all add: known_members_def unknown_key_def split: option.splits)

lemma object_all_unknown: "list_all (\<lambda>(key, v). unknown_key key) kvs \<Longrightarrow> object kvs d = d"
  by (induction kvs d rule: object.induct) (simp_all add: unknown_key_def)

lemma depth_nest: "depth (nest n j) = n + depth j"
  by (induction n) simp_all

lemma foldr_max_filter: "foldr max (map f (filter P xs)) (0::nat) \<le> foldr max (map f xs) 0"
  by (induction xs) auto

lemma depth_known_members: "depth (JObject (known_members kvs)) \<le> depth (JObject kvs)"
  by (simp add: known_members_def foldr_max_filter)

lemma Unmarshal_too_deep:
  "depth j > maxNestingDepth \<Longrightarrow> Unmarshal (Document j) = Inl (SyntaxError ''exceeded max depth'')"
  by (simp add: Unmarshal_def)

lemma Unmarshal_known_members:
  assumes "depth (JObject kvs) \<le> maxNestingDepth"
  shows "Unmarshal (Document (JObject (known_members kvs))) = Unmarshal (Document (JObject kvs))"
proof -
  from assms depth_known_members [of kvs]
  have "depth (JObject (known_members kvs)) \<le> maxNestingDepth" by (rule order_trans [rotated])
  with assms show ?thesis
    by (simp add: Unmarshal_def object_known_members del: depth.simps)
qed

lemma Unmarshal_null: "Unmarshal (Document JNull) = Inr zero_ErrorReport"
  by (simp add: Unmarshal_def)

lemma Unmarshal_all_unknown:
  "list_all (\<lambda>(key, v). unknown_key key) kvs \<Longrightarrow> depth (JObject kvs) \<le> maxNestingDepth \<Longrightarrow>
     Unmarshal (Document (JObject kvs)) = Inr zero_ErrorReport"
  by (simp add: Unmarshal_def object_all_unknown del: depth.simps)

text \<open>
  The body of the specification's interface, an object with the three required members
  (and the traceback) as strings under their exact names, decodes to the report with
  these values.
\<close>

lemma Unmarshal_three_members:
  "Unmarshal (Document (JObject
      [(''service'', JString s), (''endpoint'', JString ep), (''error'', JString er)])) =
     Inr \<lparr>Service = s, Endpoint = ep, Error = er, Traceback = []\<rparr>"
  by (simp add: Unmarshal_def maxNestingDepth_def zero_ErrorReport_def find_field_def
      struct_fields_def)

lemma Unmarshal_four_members:
  "Unmarshal (Document (JObject
      [(''service'', JString s), (''endpoint'', JString ep), (''error'', JString er),
       (''traceback'', JString tb)])) =
     Inr \<lparr>Service = s, Endpoint = ep, Error = er, Traceback = tb\<rparr>"
  by (simp add: Unmarshal_def maxNestingDepth_def zero_ErrorReport_def find_field_def
      struct_fields_def)

lemma Unmarshal_api_timeout: "Unmarshal (Document api_timeout) = Inr api_timeout_report"
  by (simp add: api_timeout_def api_timeout_report_def Unmarshal_def maxNestingDepth_def zero_ErrorReport_def
      find_field_def struct_fields_def)

lemma Unmarshal_api_timeout_traced:
  "Unmarshal (Document api_timeout_traced) = Inr api_timeout_traced_report"
  by (simp add: api_timeout_traced_def api_timeout_traced_report_def Unmarshal_def maxNestingDepth_def
      zero_ErrorReport_def find_field_def struct_fields_def)

lemma Unmarshal_blank_fields: "Unmarshal (Document blank_fields) = Inr blank_fields_report"
  by (simp add: blank_fields_def blank_fields_report_def Unmarshal_def maxNestingDepth_def zero_ErrorReport_def
      find_field_def struct_fields_def)

lemma Unmarshal_empty_service:
  "Unmarshal (Document empty_service) =
     Inr \<lparr>Service = [], Endpoint = ''/v1/x'', Error = ''timeout'', Traceback = []\<rparr>"
  by (simp add: empty_service_def Unmarshal_def maxNestingDepth_def zero_ErrorReport_def find_field_def
      struct_fields_def)

lemma Header_Get_json_request: "Header_Get (Header (json_request ct j)) ''Content-Type'' = ct"
  by (simp add: json_request_def Header_Get_def)

lemma Body_json_request: "Body (json_request ct j) = Inr (Document j)"
  by (simp add: json_request_def)

lemma valid_api_timeout:
  "valid_request (json_request ''application/json'' api_timeout) api_timeout_report"
  by (simp add: valid_request_def Header_Get_json_request Body_json_request
      Unmarshal_api_timeout api_timeout_report_def)

lemma valid_api_timeout_traced:
  "valid_request (json_request ''application/json'' api_timeout_traced) api_timeout_traced_report"
  by (simp add: valid_request_def Header_Get_json_request Body_json_request
      Unmarshal_api_timeout_traced api_timeout_traced_report_def)

lemma valid_blank_fields:
  "valid_request (json_request ''application/json'' blank_fields) blank_fields_report"
  by (simp add: valid_request_def Header_Get_json_request Body_json_request
      Unmarshal_blank_fields blank_fields_report_def)

subsection \<open>The handler on each path\<close>

lemma handler_valid:
  assumes "valid_request req report"
  shows "handler e req =
    (case store e (report_point e report) of
       Some err \<Rightarrow>
         \<lparr>status = StatusInternalServerError, message = ''Error writing point to InfluxDB'',
          logged = [(Info, ''Attempting ingestion to DB\<newline>'', []),
                    (Err, ''Error writing point to InfluxDB: %v'', [ArgWriteError err])],
          writes = [(Background, report_point e report)]\<rparr>
     | None \<Rightarrow>
         \<lparr>status = StatusOK, message = ''Error logged'',
          logged = [(Info, ''Attempting ingestion to DB\<newline>'', [])],
          writes = [(Background, report_point e report)]\<rparr>)"
  using assms
  by (auto simp: valid_request_def handler_def WritePoint_def ctx_done_def Let_def
      split: sum.splits option.splits)

lemma handler_wrong_content_type:
  assumes "Header_Get (Header req) ''Content-Type'' \<noteq> ''application/json''"
  shows "handler e req =
     \<lparr>status = StatusUnsupportedMediaType, message = ''Content-Type must be application/json'',
      logged = [(Err, ''Invalid Content-Type. Expected application/json, got %s'',
                 [ArgString (Header_Get (Header req) ''Content-Type'')])],
      writes = []\<rparr>"
  using assms by (simp add: handler_def)

lemma handler_missing_fields:
  assumes "Header_Get (Header req) ''Content-Type'' = ''application/json''"
    and "Body req = Inr data" and "Unmarshal data = Inr report"
    and "Service report = [] \<or> Endpoint report = [] \<or> Error report = []"
  shows "handler e req =
     \<lparr>status = StatusBadRequest, message = ''Missing required fields in the JSON payload'',
      logged = [(Info, ''Attempting ingestion to DB\<newline>'', []),
                (Err, ''Missing required fields in the JSON payload'', [])],
      writes = []\<rparr>"
  using assms by (auto simp: handler_def)

lemma handler_unmarshal_error:
  assumes "Header_Get (Header req) ''Content-Type'' = ''application/json''"
    and "Body req = Inr data" and "Unmarshal data = Inl err"
  shows "handler e req =
     \<lparr>status = StatusBadRequest, message = ''Error unmarshalling JSON'',
      logged = [(Info, ''Attempting ingestion to DB\<newline>'', []),
                (Err, ''Error unmarshalling JSON: %v'', [ArgUnmarshalError err])],
      writes = []\<rparr>"
  using assms by (simp add: handler_def)

lemma handler_read_error:
  assumes "Header_Get (Header req) ''Content-Type'' = ''application/json''"
    and "Body req = Inl err"
  shows "handler e req =
     \<lparr>status = StatusBadRequest, message = ''Error reading request body'',
      logged = [(Info, ''Attempting ingestion to DB\<newline>'', []),
                (Err, ''Error reading request body: %v'', [ArgReadError err])],
      writes = []\<rparr>"
  using assms by (simp add: handler_def)

lemma first_failure_cases:
  "first_failure req =
     (if Header_Get (Header req) ''Content-Type'' \<noteq> ''application/json'' then Some ContentTypeCheck
      else case Body req of
        Inl _ \<Rightarrow> Some BodyRead
      | Inr data \<Rightarrow>
          (case Unmarshal data of
             Inl _ \<Rightarrow> Some JSONDecode
           | Inr report \<Rightarrow>
               if Service report = [] \<or> Endpoint report = [] \<or> Error report = []
               then Some RequiredFieldCheck else None))"
  by (simp add: first_failure_def validation_sequence_def split: sum.splits)

subsection \<open>Claims\<close>

text \<open>
  C1. For every request that passes all validation, the handler attempts exactly one
  store write; the response status is 200 if and only if that write succeeds; and when
  the write fails, whatever the detail of the store's error, the status is 500 and the
  body is the fixed message \<^verbatim>\<open>Error writing point to InfluxDB\<close>.
\<close>

theorem one_write_status_follows_write:
  assumes "valid_request req report"
  shows "\<exists>c p. writes (handler e req) = [(c, p)] \<and>
           (status (handler e req) = StatusOK \<longleftrightarrow> WritePoint e c p = None) \<and>
           (\<forall>detail. WritePoint e c p = Some detail \<longrightarrow>
              status (handler e req) = StatusInternalServerError \<and>
              message (handler e req) = ''Error writing point to InfluxDB'')"
  by (cases "store e (report_point e report)")
     (simp_all add: handler_valid [OF assms] WritePoint_def ctx_done_def)

theorem one_write_status_follows_write_witness:
  "valid_request (json_request ''application/json'' api_timeout) api_timeout_report \<and>
   length (writes (handler store_down (json_request ''application/json'' api_timeout))) = 1 \<and>
   status (handler store_down (json_request ''application/json'' api_timeout)) = 500 \<and>
   message (handler store_down (json_request ''application/json'' api_timeout)) =
     ''Error writing point to InfluxDB''"
proof -
  let ?R = "json_request ''application/json'' api_timeout"
  from one_write_status_follows_write [OF valid_api_timeout, of store_down]
  obtain c p where w: "writes (handler store_down ?R) = [(c, p)]"
    and failing: "\<forall>detail. WritePoint store_down c p = Some detail \<longrightarrow>
        status (handler store_down ?R) = StatusInternalServerError \<and>
        message (handler store_down ?R) = ''Error writing point to InfluxDB''"
    by blast
  have "WritePoint store_down c p = Some ''unauthorized access''"
    by (cases c) (simp_all add: WritePoint_def ctx_done_def store_down_def)
  with failing have "status (handler store_down ?R) = StatusInternalServerError \<and>
      message (handler store_down ?R) = ''Error writing point to InfluxDB''"
    by blast
  with w valid_api_timeout show ?thesis by simp
qed

text \<open>
  C2. For every valid request, the single written point has the measurement name
  \<^verbatim>\<open>error_logs\<close>, the tag map with exactly the keys \<^verbatim>\<open>service\<close> and \<^verbatim>\<open>endpoint\<close>
  bound to the report's service and endpoint, a field \<^verbatim>\<open>error\<close> equal to the report's
  error, and the timestamp read from the endpoint's clock, whatever the request holds.
\<close>

theorem stored_point_shape:
  assumes "valid_request req report"
  shows "\<exists>c p. writes (handler e req) = [(c, p)] \<and>
           measurement p = ''error_logs'' \<and>
           tag_set p = [''service'' \<mapsto> Service report, ''endpoint'' \<mapsto> Endpoint report] \<and>
           field_set p ''error'' = Some (Error report) \<and>
           timestamp p = now e"
  by (cases "store e (report_point e report)")
     (simp_all add: handler_valid [OF assms] report_point_def NewPoint_def report_fields_def
        Let_def)

theorem stored_point_shape_witness:
  "valid_request (json_request ''application/json'' api_timeout) api_timeout_report \<and>
   (\<exists>c p. writes (handler store_up (json_request ''application/json'' api_timeout)) = [(c, p)] \<and>
      measurement p = ''error_logs'' \<and>
      tag_set p = [''service'' \<mapsto> ''api'', ''endpoint'' \<mapsto> ''/v1/x''] \<and>
      field_set p ''error'' = Some ''timeout'' \<and>
      timestamp p = 1700000000)"
  using stored_point_shape [OF valid_api_timeout, of store_up] valid_api_timeout
  by (simp add: api_timeout_report_def store_up_def)

text \<open>
  C3. For every valid request, the written point has a \<^verbatim>\<open>traceback\<close> field if and only
  if the report's traceback is not the empty string, and then the field equals it; when
  the traceback is empty, or the JSON object has no traceback key at all, the point's
  field map has no \<^verbatim>\<open>traceback\<close> key.
\<close>

theorem traceback_field_iff_nonempty:
  assumes "valid_request req report"
  shows "\<exists>c p. writes (handler e req) = [(c, p)] \<and>
           (''traceback'' \<in> dom (field_set p) \<longleftrightarrow> Traceback report \<noteq> []) \<and>
           (Traceback report \<noteq> [] \<longrightarrow> field_set p ''traceback'' = Some (Traceback report)) \<and>
           (\<forall>kvs. Body req = Inr (Document (JObject kvs)) \<and> absent FTraceback kvs \<longrightarrow>
              ''traceback'' \<notin> dom (field_set p))"
proof -
  have no_key: "Traceback report = []"
    if "Body req = Inr (Document (JObject kvs))" and "absent FTraceback kvs" for kvs
  proof -
    from assms that(1) have "Unmarshal (Document (JObject kvs)) = Inr report"
      by (simp add: valid_request_def)
    from Unmarshal_absent [OF that(2) this] show ?thesis by simp
  qed
  have shape: "field_set (report_point e report) ''traceback'' =
      (if Traceback report \<noteq> [] then Some (Traceback report) else None)"
    by (simp add: report_point_def NewPoint_def report_fields_def Let_def)
  have "writes (handler e req) = [(Background, report_point e report)]"
    by (cases "store e (report_point e report)") (simp_all add: handler_valid [OF assms])
  with shape no_key show ?thesis by (auto simp: dom_def)
qed

theorem traceback_field_iff_nonempty_witness:
  "valid_request (json_request ''application/json'' api_timeout) api_timeout_report \<and>
   valid_request (json_request ''application/json'' api_timeout_traced) api_timeout_traced_report \<and>
   (\<exists>c p. writes (handler store_up (json_request ''application/json'' api_timeout)) = [(c, p)] \<and>
      field_set p ''traceback'' = None) \<and>
   (\<exists>c p. writes (handler store_up (json_request ''application/json'' api_timeout_traced)) = [(c, p)] \<and>
      field_set p ''traceback'' = Some ''main.go:12'')"
proof -
  from traceback_field_iff_nonempty [OF valid_api_timeout, of store_up]
  have plain: "\<exists>c p. writes (handler store_up (json_request ''application/json'' api_timeout)) = [(c, p)] \<and>
      field_set p ''traceback'' = None"
    by (auto simp: api_timeout_report_def dom_def)
  from traceback_field_iff_nonempty [OF valid_api_timeout_traced, of store_up]
  have traced: "\<exists>c p. writes (handler store_up (json_request ''application/json'' api_timeout_traced)) = [(c, p)] \<and>
      field_set p ''traceback'' = Some ''main.go:12''"
    by (auto simp: api_timeout_traced_report_def)
  from plain traced valid_api_timeout valid_api_timeout_traced show ?thesis by blast
qed

text \<open>
  C4. For every request with the correct Content-Type and a readable body, if the body
  is not valid JSON, or does not decode into the report, or the decoded report has an
  empty service, endpoint or error, or the JSON object has no key for one of the three,
  then the status is 400 and no write is attempted.
\<close>

theorem invalid_body_is_bad_request:
  assumes "Header_Get (Header req) ''Content-Type'' = ''application/json''"
    and "Body req = Inr data"
    and "(\<exists>msg. data = Malformed msg) \<or>
         (\<exists>err. Unmarshal data = Inl err) \<or>
         (\<exists>report. Unmarshal data = Inr report \<and>
            (Service report = [] \<or> Endpoint report = [] \<or> Error report = [])) \<or>
         (\<exists>kvs. data = Document (JObject kvs) \<and>
            (absent FService kvs \<or> absent FEndpoint kvs \<or> absent FError kvs))"
  shows "status (handler e req) = StatusBadRequest \<and> writes (handler e req) = []"
proof (cases "Unmarshal data")
  case (Inl err)
  from handler_unmarshal_error [OF assms(1,2) Inl] show ?thesis by simp
next
  case (Inr report)
  have empty: "Service report = [] \<or> Endpoint report = [] \<or> Error report = []"
  proof -
    consider (malformed) msg where "data = Malformed msg"
      | (mismatch) err where "Unmarshal data = Inl err"
      | (empty) r where "Unmarshal data = Inr r"
          "Service r = [] \<or> Endpoint r = [] \<or> Error r = []"
      | (absent) kvs f where "data = Document (JObject kvs)" "absent f kvs"
          "f = FService \<or> f = FEndpoint \<or> f = FError"
      using assms(3) by blast
    then show ?thesis
    proof cases
      case malformed
      with Inr show ?thesis by (simp add: Unmarshal_def)
    next
      case mismatch
      with Inr show ?thesis by simp
    next
      case empty
      with Inr show ?thesis by simp
    next
      case absent
      from Unmarshal_absent [OF absent(2)] absent(1) Inr have "get_field f report = []"
        by simp
      with absent(3) show ?thesis by auto
    qed
  qed
  from handler_missing_fields [OF assms(1,2) Inr empty] show ?thesis by simp
qed

theorem invalid_body_is_bad_request_witness:
  "Header_Get (Header (json_request ''application/json'' empty_service)) ''Content-Type'' =
     ''application/json'' \<and>
   Body (json_request ''application/json'' empty_service) = Inr (Document empty_service) \<and>
   Unmarshal (Document empty_service) =
     Inr \<lparr>Service = [], Endpoint = ''/v1/x'', Error = ''timeout'', Traceback = []\<rparr> \<and>
   status (handler store_up (json_request ''application/json'' empty_service)) = 400 \<and>
   writes (handler store_up (json_request ''application/json'' empty_service)) = []"
proof -
  have "\<exists>report. Unmarshal (Document empty_service) = Inr report \<and>
      (Service report = [] \<or> Endpoint report = [] \<or> Error report = [])"
    by (simp add: Unmarshal_empty_service)
  then show ?thesis
    using invalid_body_is_bad_request [OF Header_Get_json_request Body_json_request,
        of empty_service store_up]
    by (simp add: Header_Get_json_request Body_json_request Unmarshal_empty_service)
qed

text \<open>
  C5. For every request whose Content-Type header is not \<^verbatim>\<open>application/json\<close>, the
  status is 415 and no write is attempted, whatever the body is.
\<close>

theorem wrong_content_type_is_unsupported:
  assumes "Header_Get (Header req) ''Content-Type'' \<noteq> ''application/json''"
  shows "status (handler e (req\<lparr>Body := b\<rparr>)) = StatusUnsupportedMediaType \<and>
         writes (handler e (req\<lparr>Body := b\<rparr>)) = []"
  using assms by (simp add: handler_def)

theorem wrong_content_type_is_unsupported_witness:
  "Header_Get (Header no_content_type) ''Content-Type'' \<noteq> ''application/json'' \<and>
   status (handler store_up (no_content_type\<lparr>Body := Inr (Document api_timeout)\<rparr>)) = 415 \<and>
   writes (handler store_up (no_content_type\<lparr>Body := Inr (Document api_timeout)\<rparr>)) = []"
proof -
  have h: "Header_Get (Header no_content_type) ''Content-Type'' \<noteq> ''application/json''"
    by (simp add: no_content_type_def Header_Get_def)
  from wrong_content_type_is_unsupported [OF h, of store_up "Inr (Document api_timeout)"] h
  show ?thesis by simp
qed

text \<open>
  C6. The validation sequence short-circuits in the order Content-Type check, body
  read, JSON decode, required-field check: the response is that of the first failing
  step, exactly one error line is logged, no write is made, and nothing of the
  surroundings (clock, store) is consulted; when the Content-Type check fails the body
  does not matter at all, so a wrong Content-Type with a valid body gives 415, not 400.
\<close>

theorem validation_short_circuits:
  assumes "first_failure req = Some s"
  shows "status (handler e req) = step_status s \<and>
         message (handler e req) = step_message s \<and>
         writes (handler e req) = [] \<and>
         length (filter (\<lambda>l. fst l = Err) (logged (handler e req))) = 1 \<and>
         handler e' req = handler e req \<and>
         (s = ContentTypeCheck \<longrightarrow> handler e (req\<lparr>Body := b\<rparr>) = handler e req)"
proof (cases "Header_Get (Header req) ''Content-Type'' = ''application/json''")
  case False
  with assms have "s = ContentTypeCheck" by (simp add: first_failure_cases)
  with False show ?thesis by (simp add: handler_def)
next
  case ct: True
  show ?thesis
  proof (cases "Body req")
    case (Inl err)
    with ct assms have "s = BodyRead" by (simp add: first_failure_cases)
    with handler_read_error [OF ct Inl] show ?thesis by simp
  next
    case body: (Inr data)
    show ?thesis
    proof (cases "Unmarshal data")
      case (Inl err)
      with ct body assms have "s = JSONDecode" by (simp add: first_failure_cases)
      with handler_unmarshal_error [OF ct body Inl] show ?thesis by simp
    next
      case (Inr report)
      with ct body assms
      have s: "s = RequiredFieldCheck"
        and empty: "Service report = [] \<or> Endpoint report = [] \<or> Error report = []"
        by (simp_all add: first_failure_cases split: if_splits)
      from handler_missing_fields [OF ct body Inr empty] s show ?thesis by simp
    qed
  qed
qed

theorem validation_short_circuits_witness:
  "first_failure (json_request ''text/plain'' api_timeout) = Some ContentTypeCheck \<and>
   Unmarshal (Document api_timeout) = Inr api_timeout_report \<and>
   status (handler store_up (json_request ''text/plain'' api_timeout)) = 415 \<and>
   writes (handler store_up (json_request ''text/plain'' api_timeout)) = [] \<and>
   handler store_up ((json_request ''text/plain'' api_timeout)\<lparr>Body := Inl ''unexpected EOF''\<rparr>) =
     handler store_up (json_request ''text/plain'' api_timeout)"
proof -
  have f: "first_failure (json_request ''text/plain'' api_timeout) = Some ContentTypeCheck"
    by (simp add: first_failure_cases Header_Get_json_request)
  from validation_short_circuits [OF f, of store_up store_up "Inl ''unexpected EOF''"] f
  show ?thesis by (simp add: Unmarshal_api_timeout)
qed

text \<open>
  C7, as the specification states it, asks that the write be issued with the request's
  cancellation context, so that a caller's disconnect abandons the write. The handler
  passes \<^verbatim>\<open>context.Background()\<close>: here the caller has gone, the request is valid,
  and the write is issued with the background context, reaches the store and is
  answered with success; the response is 200.
\<close>

theorem write_context_is_not_the_request_counterexample:
  "valid_request (json_request ''application/json'' api_timeout) api_timeout_report \<and>
   client_gone caller_gone \<and>
   writes (handler caller_gone (json_request ''application/json'' api_timeout)) =
     [(Background, report_point caller_gone api_timeout_report)] \<and>
   Background \<noteq> RequestContext \<and>
   WritePoint caller_gone Background (report_point caller_gone api_timeout_report) = None \<and>
   WritePoint caller_gone RequestContext (report_point caller_gone api_timeout_report) =
     Some ''context canceled'' \<and>
   status (handler caller_gone (json_request ''application/json'' api_timeout)) = 200"
  using valid_api_timeout
  by (simp add: handler_valid [OF valid_api_timeout] caller_gone_def WritePoint_def
      ctx_done_def)

text \<open>
  C7, amended. For every valid request, the store write is issued with the background
  context, which is never done: the write is not abandoned when the caller disconnects,
  and the handler's outcome is the same whether or not the caller has disconnected.
\<close>

theorem write_uses_background_context:
  assumes "valid_request req report"
  shows "writes (handler e req) = [(Background, report_point e report)] \<and>
         \<not> ctx_done e Background \<and>
         WritePoint e Background (report_point e report) = store e (report_point e report) \<and>
         handler (e\<lparr>client_gone := gone\<rparr>) req = handler e req"
  by (cases "store e (report_point e report)")
     (simp_all add: handler_valid [OF assms] WritePoint_def ctx_done_def report_point_def)

theorem write_uses_background_context_witness:
  "valid_request (json_request ''application/json'' api_timeout) api_timeout_report \<and>
   map fst (writes (handler caller_gone (json_request ''application/json'' api_timeout))) =
     [Background] \<and>
   handler (caller_gone\<lparr>client_gone := False\<rparr>) (json_request ''application/json'' api_timeout) =
     handler caller_gone (json_request ''application/json'' api_timeout)"
  using write_uses_background_context [OF valid_api_timeout, of caller_gone False]
    valid_api_timeout
  by simp

text \<open>
  C8. The Content-Type check is an exact string comparison: a header value that is
  \<^verbatim>\<open>application/json\<close> followed by anything (a parameter such as
  \<^verbatim>\<open>; charset=utf-8\<close>), or that differs from it in letter case only, gets 415 and no
  write, whatever the body is, a JSON body included.
\<close>

theorem content_type_compared_exactly:
  assumes "(\<exists>suffix. suffix \<noteq> [] \<and>
              Header_Get (Header req) ''Content-Type'' = ''application/json'' @ suffix) \<or>
           case_variant (Header_Get (Header req) ''Content-Type'')"
  shows "status (handler e req) = StatusUnsupportedMediaType \<and> writes (handler e req) = []"
proof -
  from assms have "Header_Get (Header req) ''Content-Type'' \<noteq> ''application/json''"
    by (auto simp: case_variant_def)
  from handler_wrong_content_type [OF this] show ?thesis by simp
qed

theorem content_type_compared_exactly_witness:
  "Header_Get (Header (json_request ''application/json; charset=utf-8'' api_timeout)) ''Content-Type'' =
     ''application/json'' @ ''; charset=utf-8'' \<and>
   Unmarshal (Document api_timeout) = Inr api_timeout_report \<and>
   status (handler store_up (json_request ''application/json; charset=utf-8'' api_timeout)) = 415 \<and>
   writes (handler store_up (json_request ''application/json; charset=utf-8'' api_timeout)) = [] \<and>
   case_variant (Header_Get (Header (json_request ''Application/JSON'' api_timeout)) ''Content-Type'') \<and>
   status (handler store_up (json_request ''Application/JSON'' api_timeout)) = 415 \<and>
   writes (handler store_up (json_request ''Application/JSON'' api_timeout)) = []"
proof -
  have param: "\<exists>suffix. suffix \<noteq> [] \<and>
      Header_Get (Header (json_request ''application/json; charset=utf-8'' api_timeout)) ''Content-Type'' =
        ''application/json'' @ suffix"
    by (rule exI [of _ "''; charset=utf-8''"]) (simp add: Header_Get_json_request)
  have variant: "case_variant (Header_Get (Header (json_request ''Application/JSON'' api_timeout)) ''Content-Type'')"
    unfolding Header_Get_json_request by code_simp
  from content_type_compared_exactly [OF disjI1, OF param, of store_up]
    content_type_compared_exactly [OF disjI2, OF variant, of store_up]
    variant
  show ?thesis by (simp add: Header_Get_json_request Unmarshal_api_timeout)
qed

text \<open>
  C9. The required-field check compares with the empty string only and trims nothing:
  for every request with the correct Content-Type whose decoded service, endpoint or
  error consists solely of whitespace, none of the three being empty, validation passes
  (the status is not 400, one write is made) and the values are stored as they are, as
  the \<^verbatim>\<open>service\<close> and \<^verbatim>\<open>endpoint\<close> tags and the \<^verbatim>\<open>error\<close> field.
\<close>

theorem whitespace_fields_pass_and_are_stored:
  assumes "Header_Get (Header req) ''Content-Type'' = ''application/json''"
    and "Body req = Inr data" and "Unmarshal data = Inr report"
    and "whitespace_only (Service report) \<or> whitespace_only (Endpoint report) \<or>
         whitespace_only (Error report)"
    and "Service report \<noteq> []" and "Endpoint report \<noteq> []" and "Error report \<noteq> []"
  shows "status (handler e req) \<noteq> StatusBadRequest \<and>
         (\<exists>c p. writes (handler e req) = [(c, p)] \<and>
            tag_set p ''service'' = Some (Service report) \<and>
            tag_set p ''endpoint'' = Some (Endpoint report) \<and>
            field_set p ''error'' = Some (Error report))"
proof -
  from assms(1,2,3,5,6,7) have v: "valid_request req report"
    by (simp add: valid_request_def)
  show ?thesis
    by (cases "store e (report_point e report)")
       (simp_all add: handler_valid [OF v] report_point_def NewPoint_def report_fields_def
          Let_def)
qed

theorem whitespace_fields_pass_and_are_stored_witness:
  "Header_Get (Header (json_request ''application/json'' blank_fields)) ''Content-Type'' =
     ''application/json'' \<and>
   Unmarshal (Document blank_fields) = Inr blank_fields_report \<and>
   whitespace_only (Service blank_fields_report) \<and>
   whitespace_only (Endpoint blank_fields_report) \<and>
   whitespace_only (Error blank_fields_report) \<and>
   status (handler store_up (json_request ''application/json'' blank_fields)) = 200 \<and>
   (\<exists>c p. writes (handler store_up (json_request ''application/json'' blank_fields)) = [(c, p)] \<and>
      tag_set p ''service'' = Some '' '' \<and>
      tag_set p ''endpoint'' = Some [CHR 0x09] \<and>
      field_set p ''error'' = Some [CHR '' '', CHR 0x0A])"
proof -
  have ws: "whitespace_only (Service blank_fields_report)"
    "whitespace_only (Endpoint blank_fields_report)"
    "whitespace_only (Error blank_fields_report)"
    by (simp_all add: whitespace_only_def blank_fields_report_def)
  have ne: "Service blank_fields_report \<noteq> []" "Endpoint blank_fields_report \<noteq> []"
    "Error blank_fields_report \<noteq> []"
    by (simp_all add: blank_fields_report_def)
  have ok: "status (handler store_up (json_request ''application/json'' blank_fields)) = 200"
    by (simp add: handler_valid [OF valid_blank_fields] store_up_def)
  from whitespace_fields_pass_and_are_stored [OF Header_Get_json_request Body_json_request
      Unmarshal_blank_fields disjI1 ne, OF ws(1), of store_up]
  have "\<exists>c p. writes (handler store_up (json_request ''application/json'' blank_fields)) = [(c, p)] \<and>
      tag_set p ''service'' = Some '' '' \<and>
      tag_set p ''endpoint'' = Some [CHR 0x09] \<and>
      field_set p ''error'' = Some [CHR '' '', CHR 0x0A]"
    by (simp add: blank_fields_report_def)
  with ws ok show ?thesis by (simp add: Header_Get_json_request Unmarshal_blank_fields)
qed

text \<open>
  C10, as stated, says that unknown extra keys of a JSON object are ignored and never
  cause rejection, and that a body left with empty required fields gets the 400 for
  missing required fields, not the one for malformed JSON. The key \<^verbatim>\<open>x\<close> matches no
  field; added to the accepted body of the specification's scenario with 16384 nested
  arrays as its value, it turns the 200 into 400 \<^verbatim>\<open>Error unmarshalling JSON\<close>, and
  an object with this member alone gets that same message: the library's syntax check
  refuses the nesting before any key is looked at.
\<close>

theorem deep_unknown_key_is_rejected_counterexample:
  "unknown_key ''x'' \<and>
   api_timeout_deep_extra =
     JObject [(''service'', JString ''api''), (''endpoint'', JString ''/v1/x''),
              (''error'', JString ''timeout''), (''x'', nest 16384 JNull)] \<and>
   api_timeout =
     JObject [(''service'', JString ''api''), (''endpoint'', JString ''/v1/x''),
              (''error'', JString ''timeout'')] \<and>
   status (handler store_up (json_request ''application/json'' api_timeout)) = 200 \<and>
   status (handler store_up (json_request ''application/json'' api_timeout_deep_extra)) = 400 \<and>
   message (handler store_up (json_request ''application/json'' api_timeout_deep_extra)) =
     ''Error unmarshalling JSON'' \<and>
   writes (handler store_up (json_request ''application/json'' api_timeout_deep_extra)) = [] \<and>
   only_deep_extra = JObject [(''x'', nest 16384 JNull)] \<and>
   status (handler store_up (json_request ''application/json'' only_deep_extra)) = 400 \<and>
   message (handler store_up (json_request ''application/json'' only_deep_extra)) =
     ''Error unmarshalling JSON''"
proof -
  have x: "unknown_key ''x''"
    by code_simp
  have accepted: "status (handler store_up (json_request ''application/json'' api_timeout)) = 200"
    by (simp add: handler_valid [OF valid_api_timeout] store_up_def)
  have "depth api_timeout_deep_extra > maxNestingDepth"
    by (simp add: api_timeout_deep_extra_def depth_nest maxNestingDepth_def)
  from handler_unmarshal_error
    [OF Header_Get_json_request Body_json_request Unmarshal_too_deep [OF this], of store_up]
  have deep: "status (handler store_up (json_request ''application/json'' api_timeout_deep_extra)) = 400 \<and>
      message (handler store_up (json_request ''application/json'' api_timeout_deep_extra)) =
        ''Error unmarshalling JSON'' \<and>
      writes (handler store_up (json_request ''application/json'' api_timeout_deep_extra)) = []"
    by simp
  have "depth only_deep_extra > maxNestingDepth"
    by (simp add: only_deep_extra_def depth_nest maxNestingDepth_def)
  from handler_unmarshal_error
    [OF Header_Get_json_request Body_json_request Unmarshal_too_deep [OF this], of store_up]
  have alone: "status (handler store_up (json_request ''application/json'' only_deep_extra)) = 400 \<and>
      message (handler store_up (json_request ''application/json'' only_deep_extra)) =
        ''Error unmarshalling JSON''"
    by simp
  from x accepted deep alone show ?thesis
    by (simp add: api_timeout_deep_extra_def api_timeout_def only_deep_extra_def)
qed

text \<open>
  C10, amended. JSON bodies are decoded permissively up to the library's nesting limit.
  In a JSON object that nests at most 10000 levels deep, keys that match no field of the
  report are ignored, whatever their values: decoding the object and the handler's whole
  outcome are the same with and without them. The body \<^verbatim>\<open>null\<close> decodes without
  error into the all-empty report. So \<^verbatim>\<open>null\<close>, and an object within the limit that
  has unknown keys only, are answered with 400 and the message for missing required
  fields, not the one for malformed JSON, and nothing is written. A body that nests
  deeper than 10000 levels is answered with 400 and the message for malformed JSON,
  whatever its keys, and nothing is written.
\<close>

theorem decoding_is_permissive_within_depth:
  "(depth (JObject kvs) \<le> maxNestingDepth \<longrightarrow>
      Unmarshal (Document (JObject kvs)) = Unmarshal (Document (JObject (known_members kvs))) \<and>
      handler e (req\<lparr>Body := Inr (Document (JObject kvs))\<rparr>) =
        handler e (req\<lparr>Body := Inr (Document (JObject (known_members kvs)))\<rparr>)) \<and>
   Unmarshal (Document JNull) = Inr zero_ErrorReport \<and>
   (Header_Get (Header req) ''Content-Type'' = ''application/json'' \<and>
    (Body req = Inr (Document JNull) \<or>
     (\<exists>ms. Body req = Inr (Document (JObject ms)) \<and> depth (JObject ms) \<le> maxNestingDepth \<and>
        list_all (\<lambda>(key, v). unknown_key key) ms))
    \<longrightarrow> status (handler e req) = StatusBadRequest \<and>
        message (handler e req) = ''Missing required fields in the JSON payload'' \<and>
        message (handler e req) \<noteq> ''Error unmarshalling JSON'' \<and>
        writes (handler e req) = []) \<and>
   (Header_Get (Header req) ''Content-Type'' = ''application/json'' \<and>
    (\<exists>j. Body req = Inr (Document j) \<and> depth j > maxNestingDepth)
    \<longrightarrow> status (handler e req) = StatusBadRequest \<and>
        message (handler e req) = ''Error unmarshalling JSON'' \<and>
        writes (handler e req) = [])"
proof -
  have same: "handler e (req\<lparr>Body := Inr (Document (JObject kvs))\<rparr>) =
      handler e (req\<lparr>Body := Inr (Document (JObject (known_members kvs)))\<rparr>)"
    if "depth (JObject kvs) \<le> maxNestingDepth"
    by (cases "Header_Get (Header req) ''Content-Type'' = ''application/json''")
       (simp_all add: handler_def Unmarshal_known_members [OF that] del: depth.simps)
  have members: "Unmarshal (Document (JObject kvs)) =
      Unmarshal (Document (JObject (known_members kvs)))"
    if "depth (JObject kvs) \<le> maxNestingDepth"
    by (simp only: Unmarshal_known_members [OF that])
  have rejected: "status (handler e req) = StatusBadRequest \<and>
      message (handler e req) = ''Missing required fields in the JSON payload'' \<and>
      message (handler e req) \<noteq> ''Error unmarshalling JSON'' \<and>
      writes (handler e req) = []"
    if ct: "Header_Get (Header req) ''Content-Type'' = ''application/json''"
      and body: "Body req = Inr data" and zero: "Unmarshal data = Inr zero_ErrorReport" for data
  proof -
    have "Service zero_ErrorReport = [] \<or> Endpoint zero_ErrorReport = [] \<or>
        Error zero_ErrorReport = []"
      by (simp add: zero_ErrorReport_def)
    from handler_missing_fields [OF ct body zero this] show ?thesis by simp
  qed
  have answered: "status (handler e req) = StatusBadRequest \<and>
      message (handler e req) = ''Missing required fields in the JSON payload'' \<and>
      message (handler e req) \<noteq> ''Error unmarshalling JSON'' \<and>
      writes (handler e req) = []"
    if ct: "Header_Get (Header req) ''Content-Type'' = ''application/json''"
      and body: "Body req = Inr (Document JNull) \<or>
        (\<exists>ms. Body req = Inr (Document (JObject ms)) \<and> depth (JObject ms) \<le> maxNestingDepth \<and>
           list_all (\<lambda>(key, v). unknown_key key) ms)"
  proof -
    from body consider (null) "Body req = Inr (Document JNull)"
      | (extra) ms where "Body req = Inr (Document (JObject ms))"
          "depth (JObject ms) \<le> maxNestingDepth"
          "list_all (\<lambda>(key, v). unknown_key key) ms"
      by blast
    then show ?thesis
    proof cases
      case null
      from rejected [OF ct null Unmarshal_null] show ?thesis .
    next
      case extra
      from rejected [OF ct extra(1) Unmarshal_all_unknown [OF extra(3) extra(2)]]
      show ?thesis .
    qed
  qed
  have too_deep: "status (handler e req) = StatusBadRequest \<and>
      message (handler e req) = ''Error unmarshalling JSON'' \<and>
      writes (handler e req) = []"
    if ct: "Header_Get (Header req) ''Content-Type'' = ''application/json''"
      and body: "\<exists>j. Body req = Inr (Document j) \<and> depth j > maxNestingDepth"
  proof -
    from body obtain j where j: "Body req = Inr (Document j)" "depth j > maxNestingDepth"
      by blast
    from handler_unmarshal_error [OF ct j(1) Unmarshal_too_deep [OF j(2)]]
    show ?thesis by simp
  qed
  from members same Unmarshal_null answered too_deep show ?thesis by blast
qed

theorem decoding_is_permissive_within_depth_witness:
  "depth (JObject [(''host'', JString ''web-1''), (''service'', JString ''api'')]) \<le>
     maxNestingDepth \<and>
   known_members [(''host'', JString ''web-1''), (''service'', JString ''api'')] =
     [(''service'', JString ''api'')] \<and>
   Unmarshal (Document (JObject [(''host'', JString ''web-1''), (''service'', JString ''api'')])) =
     Unmarshal (Document (JObject [(''service'', JString ''api'')])) \<and>
   status (handler store_up (json_request ''application/json'' JNull)) = 400 \<and>
   message (handler store_up (json_request ''application/json'' JNull)) =
     ''Missing required fields in the JSON payload'' \<and>
   status (handler store_up (json_request ''application/json'' only_extra_keys)) = 400 \<and>
   message (handler store_up (json_request ''application/json'' only_extra_keys)) =
     ''Missing required fields in the JSON payload'' \<and>
   depth only_deep_extra > maxNestingDepth \<and>
   message (handler store_up (json_request ''application/json'' only_deep_extra)) =
     ''Error unmarshalling JSON''"
proof -
  let ?kvs = "[(''host'', JString ''web-1''), (''service'', JString ''api'')]"
  have shallow: "depth (JObject ?kvs) \<le> maxNestingDepth"
    by (simp add: maxNestingDepth_def)
  have km: "known_members ?kvs = [(''service'', JString ''api'')]"
    by code_simp
  have extra: "\<exists>ms. Body (json_request ''application/json'' only_extra_keys) =
        Inr (Document (JObject ms)) \<and> depth (JObject ms) \<le> maxNestingDepth \<and>
        list_all (\<lambda>(key, v). unknown_key key) ms"
  proof (intro exI conjI)
    show "Body (json_request ''application/json'' only_extra_keys) =
        Inr (Document (JObject [(''host'', JString ''web-1''), (''code'', JNumber ''503'')]))"
      by (simp add: json_request_def only_extra_keys_def)
    show "depth (JObject [(''host'', JString ''web-1''), (''code'', JNumber ''503'')]) \<le>
        maxNestingDepth"
      by (simp add: maxNestingDepth_def)
    show "list_all (\<lambda>(key, v). unknown_key key)
        [(''host'', JString ''web-1''), (''code'', JNumber ''503'')]"
      by code_simp
  qed
  have deep: "depth only_deep_extra > maxNestingDepth"
    by (simp add: only_deep_extra_def depth_nest maxNestingDepth_def)
  then have too_deep: "\<exists>j. Body (json_request ''application/json'' only_deep_extra) =
      Inr (Document j) \<and> depth j > maxNestingDepth"
    by (simp add: Body_json_request)
  note null = decoding_is_permissive_within_depth
      [of ?kvs store_up "json_request ''application/json'' JNull"]
  note keys = decoding_is_permissive_within_depth
      [of "[]" store_up "json_request ''application/json'' only_extra_keys"]
  note nested = decoding_is_permissive_within_depth
      [of "[]" store_up "json_request ''application/json'' only_deep_extra"]
  from null shallow have members: "Unmarshal (Document (JObject ?kvs)) =
      Unmarshal (Document (JObject (known_members ?kvs)))"
    by blast
  from null have n: "status (handler store_up (json_request ''application/json'' JNull)) = 400 \<and>
      message (handler store_up (json_request ''application/json'' JNull)) =
        ''Missing required fields in the JSON payload''"
    by (simp only: Header_Get_json_request Body_json_request) blast
  from keys extra
  have k: "status (handler store_up (json_request ''application/json'' only_extra_keys)) = 400 \<and>
      message (handler store_up (json_request ''application/json'' only_extra_keys)) =
        ''Missing required fields in the JSON payload''"
    by (simp only: Header_Get_json_request) blast
  from nested too_deep
  have d: "message (handler store_up (json_request ''application/json'' only_deep_extra)) =
      ''Error unmarshalling JSON''"
    by (simp only: Header_Get_json_request)
  from shallow km members n k deep d show ?thesis by simp
qed

end
